theory Spec2Isabelle
  imports Main "HOL-Library.Word"
begin

unbundle bit_operations_syntax

section \<open>The M68k executor: data model\<close>

text \<open>
  The development embeds \<^verbatim>\<open>InstructionSet::M68k::Executor\<close>
  (\<^verbatim>\<open>Executor.hpp\<close> and \<^verbatim>\<open>Implementation/ExecutorImplementation.hpp\<close>).
  A \<^verbatim>\<open>CPU::SlicedInt32\<close> is a 32-bit word; its \<^verbatim>\<open>.w\<close> and \<^verbatim>\<open>.b\<close> views
  are the low 16 and the low 8 bits of the same storage. The member names of the source
  end in an underscore; here each carries a prime after it (\<open>status_'\<close> for
  \<^verbatim>\<open>status_\<close>).
\<close>

type_synonym u8 = "8 word"
type_synonym u16 = "16 word"
type_synonym u32 = "32 word"

datatype DataSize = Byte | Word | LongWord

text \<open>
  Modelled from the spec: the \<^verbatim>\<open>AddressingMode\<close> enumeration (\<^verbatim>\<open>Instruction.hpp\<close>
  is not part of the sources at hand). The first fourteen constructors are the closed
  enumeration of the specification, under the names the executor's \<^verbatim>\<open>switch\<close> uses;
  \<open>UnhandledMode\<close> stands for any further enumerator, which that \<^verbatim>\<open>switch\<close>
  leaves to its \<^verbatim>\<open>default\<close> branch.
\<close>

datatype AddressingMode =
    None_'
  | DataRegisterDirect
  | AddressRegisterDirect
  | AddressRegisterIndirect
  | AddressRegisterIndirectWithPostincrement
  | AddressRegisterIndirectWithPredecrement
  | AddressRegisterIndirectWithDisplacement
  | AddressRegisterIndirectWithIndex8bitDisplacement
  | ProgramCounterIndirectWithDisplacement
  | ProgramCounterIndirectWithIndex8bitDisplacement
  | AbsoluteShort
  | AbsoluteLong
  | ImmediateData
  | Quick
  | UnhandledMode

text \<open>
  Modelled from the spec: the \<^verbatim>\<open>Operation\<close> tag and the \<^verbatim>\<open>Preinstruction\<close>
  descriptor (\<^verbatim>\<open>Instruction.hpp\<close> is not part of the sources at hand): an operation
  tag, two operand descriptors (addressing mode and register index), an operand size and
  the supervisor requirement the executor queries. Only \<^verbatim>\<open>Operation::Undefined\<close> is
  distinguished by the executor; every other mnemonic is \<open>Mnemonic n\<close>.
\<close>

datatype Operation = Undefined | Mnemonic nat

record Preinstruction =
  operation :: Operation
  mode0 :: AddressingMode
  reg0 :: nat
  mode1 :: AddressingMode
  reg1 :: nat
  size_' :: DataSize
  requires_supervisor :: bool

definition mode :: "Preinstruction \<Rightarrow> nat \<Rightarrow> AddressingMode" where
  "mode instruction index = (if index = 0 then mode0 instruction else mode1 instruction)"

definition reg :: "Preinstruction \<Rightarrow> nat \<Rightarrow> nat" where
  "reg instruction index = (if index = 0 then reg0 instruction else reg1 instruction)"

text \<open>
  Modelled from the spec: \<^verbatim>\<open>Status\<close> (\<^verbatim>\<open>Status.hpp\<close> is not part of the sources at
  hand): the condition codes carry, overflow, zero, negative and extend, the
  supervisor bit, the three-bit interrupt-priority mask and the trace bit, packed in the
  status word with the bit layout of the MC68000 status register (C = bit 0, V = 1,
  Z = 2, N = 3, X = 4, interrupt mask = bits 8 to 10, S = bit 13, T = bit 15). The executor
  reads and writes the field \<^verbatim>\<open>is_supervisor_\<close> as the integer 0 or 1 and uses it as
  an array index, hence a one-bit word.
\<close>

record Status =
  trace_flag_' :: bool
  is_supervisor_' :: "1 word"
  interrupt_level_' :: "3 word"
  zero_flag_' :: bool
  carry_flag_' :: bool
  extend_flag_' :: bool
  overflow_flag_' :: bool
  negative_flag_' :: bool

definition set_status :: "u16 \<Rightarrow> Status" where
  "set_status w =
     \<lparr> trace_flag_' = bit w 15,
       is_supervisor_' = ucast (drop_bit 13 w),
       interrupt_level_' = ucast (drop_bit 8 w),
       zero_flag_' = bit w 2,
       carry_flag_' = bit w 0,
       extend_flag_' = bit w 4,
       overflow_flag_' = bit w 1,
       negative_flag_' = bit w 3 \<rparr>"

definition Status_status :: "Status \<Rightarrow> u16" where
  "Status_status st =
     of_bool (carry_flag_' st)
     OR push_bit 1 (of_bool (overflow_flag_' st))
     OR push_bit 2 (of_bool (zero_flag_' st))
     OR push_bit 3 (of_bool (negative_flag_' st))
     OR push_bit 4 (of_bool (extend_flag_' st))
     OR push_bit 8 (ucast (interrupt_level_' st))
     OR push_bit 13 (ucast (is_supervisor_' st))
     OR push_bit 15 (of_bool (trace_flag_' st))"

text \<open>
  The bus handler is a template parameter of the executor: any type offering
  \<^verbatim>\<open>read<IntT>(address)\<close> and \<^verbatim>\<open>write<IntT>(address, value)\<close> for the three
  integer widths. It is modelled as a record of operations over the handler's own state
  \<open>'b\<close>; a read may change that state.
\<close>

record 'b BusHandler =
  read_u8 :: "u32 \<Rightarrow> 'b \<Rightarrow> u8 \<times> 'b"
  read_u16 :: "u32 \<Rightarrow> 'b \<Rightarrow> u16 \<times> 'b"
  read_u32 :: "u32 \<Rightarrow> 'b \<Rightarrow> u32 \<times> 'b"
  write_u8 :: "u32 \<Rightarrow> u8 \<Rightarrow> 'b \<Rightarrow> 'b"
  write_u16 :: "u32 \<Rightarrow> u16 \<Rightarrow> 'b \<Rightarrow> 'b"
  write_u32 :: "u32 \<Rightarrow> u32 \<Rightarrow> 'b \<Rightarrow> 'b"

text \<open>
  One entry per call the executor makes on its bus handler, in order. The log is
  bookkeeping of the model: the executor's code never reads it.
\<close>

datatype BusAccess =
    BusRead DataSize u32
  | BusWrite DataSize u32 u32

text \<open>
  The member variables of \<^verbatim>\<open>Executor\<close>. \<open>bus_handler_'\<close> holds the state of the
  handler the C++ member refers to. The arrays \<^verbatim>\<open>data_[8]\<close>, \<^verbatim>\<open>address_[8]\<close> and
  \<^verbatim>\<open>stack_pointers_[2]\<close> are lists.
\<close>

record 'b Executor =
  bus_handler_' :: 'b
  bus_log :: "BusAccess list"
  status_' :: Status
  program_counter_' :: u32
  data_' :: "u32 list"
  address_' :: "u32 list"
  stack_pointers_' :: "u32 list"
  instruction_address_' :: u32
  active_stack_pointer_' :: nat

text \<open>The array sizes that the class declaration fixes.\<close>

definition well_formed :: "'b Executor \<Rightarrow> bool" where
  "well_formed s \<longleftrightarrow>
     length (data_' s) = 8 \<and> length (address_' s) = 8 \<and> length (stack_pointers_' s) = 2"

record EffectiveAddress =
  ea_value :: u32
  requires_fetch :: bool

record Registers =
  data :: "u32 list"
  address :: "u32 list"
  user_stack_pointer :: u32
  supervisor_stack_pointer :: u32
  status :: u16
  program_counter :: u32

definition byte_increments :: "u32 list" where
  "byte_increments = [1, 1, 1, 1, 1, 1, 1, 2]"

section \<open>Bus access\<close>

definition bus_read_u8 :: "'b BusHandler \<Rightarrow> u32 \<Rightarrow> 'b Executor \<Rightarrow> u8 \<times> 'b Executor" where
  "bus_read_u8 H a s =
     (let (v, b) = read_u8 H a (bus_handler_' s)
      in (v, s\<lparr>bus_handler_' := b, bus_log := bus_log s @ [BusRead Byte a]\<rparr>))"

definition bus_read_u16 :: "'b BusHandler \<Rightarrow> u32 \<Rightarrow> 'b Executor \<Rightarrow> u16 \<times> 'b Executor" where
  "bus_read_u16 H a s =
     (let (v, b) = read_u16 H a (bus_handler_' s)
      in (v, s\<lparr>bus_handler_' := b, bus_log := bus_log s @ [BusRead Word a]\<rparr>))"

definition bus_read_u32 :: "'b BusHandler \<Rightarrow> u32 \<Rightarrow> 'b Executor \<Rightarrow> u32 \<times> 'b Executor" where
  "bus_read_u32 H a s =
     (let (v, b) = read_u32 H a (bus_handler_' s)
      in (v, s\<lparr>bus_handler_' := b, bus_log := bus_log s @ [BusRead LongWord a]\<rparr>))"

definition bus_write_u8 :: "'b BusHandler \<Rightarrow> u32 \<Rightarrow> u8 \<Rightarrow> 'b Executor \<Rightarrow> 'b Executor" where
  "bus_write_u8 H a v s =
     s\<lparr>bus_handler_' := write_u8 H a v (bus_handler_' s),
       bus_log := bus_log s @ [BusWrite Byte a (ucast v)]\<rparr>"

definition bus_write_u16 :: "'b BusHandler \<Rightarrow> u32 \<Rightarrow> u16 \<Rightarrow> 'b Executor \<Rightarrow> 'b Executor" where
  "bus_write_u16 H a v s =
     s\<lparr>bus_handler_' := write_u16 H a v (bus_handler_' s),
       bus_log := bus_log s @ [BusWrite Word a (ucast v)]\<rparr>"

definition bus_write_u32 :: "'b BusHandler \<Rightarrow> u32 \<Rightarrow> u32 \<Rightarrow> 'b Executor \<Rightarrow> 'b Executor" where
  "bus_write_u32 H a v s =
     s\<lparr>bus_handler_' := write_u32 H a v (bus_handler_' s),
       bus_log := bus_log s @ [BusWrite LongWord a v]\<rparr>"

text \<open>
  \<^verbatim>\<open>Executor::read\<close> and \<^verbatim>\<open>Executor::write\<close>: a byte or word read replaces only
  the low 8 or 16 bits of the operand it is given.
\<close>

definition Executor_read :: "'b BusHandler \<Rightarrow> DataSize \<Rightarrow> u32 \<Rightarrow> u32 \<Rightarrow> 'b Executor \<Rightarrow> u32 \<times> 'b Executor" where
  "Executor_read H sz a v s =
     (case sz of
        Byte \<Rightarrow> (let (b, s') = bus_read_u8 H a s in ((v AND NOT 0xFF) OR ucast b, s'))
      | Word \<Rightarrow> (let (w, s') = bus_read_u16 H a s in ((v AND NOT 0xFFFF) OR ucast w, s'))
      | LongWord \<Rightarrow> bus_read_u32 H a s)"

definition Executor_write :: "'b BusHandler \<Rightarrow> DataSize \<Rightarrow> u32 \<Rightarrow> u32 \<Rightarrow> 'b Executor \<Rightarrow> 'b Executor" where
  "Executor_write H sz a v s =
     (case sz of
        Byte \<Rightarrow> bus_write_u8 H a (ucast v) s
      | Word \<Rightarrow> bus_write_u16 H a (ucast v) s
      | LongWord \<Rightarrow> bus_write_u32 H a v s)"

definition read_pc_u16 :: "'b BusHandler \<Rightarrow> 'b Executor \<Rightarrow> u16 \<times> 'b Executor" where
  "read_pc_u16 H s =
     (let (result, s') = bus_read_u16 H (program_counter_' s) s
      in (result, s'\<lparr>program_counter_' := program_counter_' s' + 2\<rparr>))"

definition read_pc_u32 :: "'b BusHandler \<Rightarrow> 'b Executor \<Rightarrow> u32 \<times> 'b Executor" where
  "read_pc_u32 H s =
     (let (result, s') = bus_read_u32 H (program_counter_' s) s
      in (result, s'\<lparr>program_counter_' := program_counter_' s' + 4\<rparr>))"

section \<open>Status bookkeeping, reset and exceptions\<close>

definition did_update_status :: "'b Executor \<Rightarrow> 'b Executor" where
  "did_update_status s =
     (let s1 = s\<lparr>stack_pointers_' := (stack_pointers_' s)[active_stack_pointer_' s := address_' s ! 7]\<rparr>;
          s2 = s1\<lparr>address_' :=
                 (address_' s1)[7 := stack_pointers_' s1 ! unat (is_supervisor_' (status_' s1))]\<rparr>
      in s2\<lparr>active_stack_pointer_' := unat (is_supervisor_' (status_' s2))\<rparr>)"

definition reset :: "'b BusHandler \<Rightarrow> 'b Executor \<Rightarrow> 'b Executor" where
  "reset H s =
     (let s1 = did_update_status (s\<lparr>status_' := set_status 0x2380\<rparr>);
          (sp, s2) = bus_read_u32 H 0 s1;
          s3 = s2\<lparr>data_' := (data_' s2)[7 := sp]\<rparr>;
          (pc, s4) = bus_read_u32 H 4 s3
      in s4\<lparr>program_counter_' := pc\<rparr>)"

definition raise_exception :: "'b BusHandler \<Rightarrow> u32 \<Rightarrow> 'b Executor \<Rightarrow> 'b Executor" where
  "raise_exception H index s =
     (let addr = push_bit 2 index;
          st = Status_status (status_' s);
          s1 = did_update_status (s\<lparr>status_' := (status_' s)\<lparr>is_supervisor_' := 1\<rparr>\<rparr>);
          s2 = bus_write_u32 H (address_' s1 ! 7 - 4) (instruction_address_' s1) s1;
          s3 = bus_write_u16 H (address_' s2 ! 7 - 6) st s2;
          s4 = s3\<lparr>address_' := (address_' s3)[7 := address_' s3 ! 7 - 6]\<rparr>;
          (pc, s5) = bus_read_u32 H addr s4
      in s5\<lparr>program_counter_' := pc\<rparr>)"

section \<open>Snapshots\<close>

definition get_state :: "'b Executor \<Rightarrow> Registers \<times> 'b Executor" where
  "get_state s =
     (let s' = s\<lparr>stack_pointers_' :=
                  (stack_pointers_' s)[unat (is_supervisor_' (status_' s)) := address_' s ! 7]\<rparr>
      in (\<lparr> data = map (\<lambda>c. data_' s ! c) [0..<8],
             address = map (\<lambda>c. address_' s ! c) [0..<7],
             user_stack_pointer = stack_pointers_' s' ! 0,
             supervisor_stack_pointer = stack_pointers_' s' ! 1,
             status = Status_status (status_' s),
             program_counter = program_counter_' s \<rparr>, s'))"

definition set_state :: "Registers \<Rightarrow> 'b Executor \<Rightarrow> 'b Executor" where
  "set_state state s =
     (let s1 = s\<lparr>data_' := fold (\<lambda>c d. d[c := data state ! c]) [0..<8] (data_' s)\<rparr>;
          s2 = s1\<lparr>address_' := fold (\<lambda>c a. a[c := address state ! c]) [0..<7] (address_' s1)\<rparr>;
          s3 = s2\<lparr>status_' := set_status (status state)\<rparr>;
          s4 = s3\<lparr>program_counter_' := program_counter state\<rparr>;
          s5 = s4\<lparr>stack_pointers_' := (stack_pointers_' s4)[0 := user_stack_pointer state]\<rparr>;
          s6 = s5\<lparr>stack_pointers_' := (stack_pointers_' s5)[1 := supervisor_stack_pointer state]\<rparr>
      in s6\<lparr>address_' :=
              (address_' s6)[7 := stack_pointers_' s6 ! unat (is_supervisor_' (status_' s6))]\<rparr>)"

section \<open>Effective addresses\<close>

text \<open>
  An \<^verbatim>\<open>assert(false)\<close> of the source ends the run; the model returns it as a value.
\<close>

datatype Fault = AssertionFailure

definition index_8bitdisplacement :: "'b BusHandler \<Rightarrow> 'b Executor \<Rightarrow> u32 \<times> 'b Executor" where
  "index_8bitdisplacement H s =
     (let (extension, s') = read_pc_u16 H s;
          offset = (scast (ucast extension :: u8) :: u32);
          register_index = unat (drop_bit 12 extension AND 7);
          displacement =
            (if extension AND 0x8000 \<noteq> 0 then address_' s' ! register_index
             else data_' s' ! register_index);
          sized_displacement =
            (if extension AND 0x800 \<noteq> 0 then displacement
             else (scast (ucast displacement :: u16) :: u32))
      in (offset + sized_displacement, s'))"

text \<open>
  \<^verbatim>\<open>calculate_effective_address\<close>. The local \<^verbatim>\<open>ea\<close> of the source starts
  uninitialised and is returned as it is for \<^verbatim>\<open>AddressingMode::None\<close>: its
  starting content is the argument \<open>ea\<close>. \<open>quick\<close> is the function
  \<^verbatim>\<open>quick(operation, opcode)\<close> of \<^verbatim>\<open>Instruction.hpp\<close>, taken as a parameter.
  In the two program-counter-relative modes the program counter is read before the
  extension word is fetched.
\<close>

definition calculate_effective_address ::
  "'b BusHandler \<Rightarrow> (Operation \<Rightarrow> u16 \<Rightarrow> u32) \<Rightarrow> Preinstruction \<Rightarrow> u16 \<Rightarrow> nat \<Rightarrow>
   EffectiveAddress \<Rightarrow> 'b Executor \<Rightarrow> Fault + (EffectiveAddress \<times> 'b Executor)" where
  "calculate_effective_address H quick instruction opcode index ea s =
     (case mode instruction index of
        None_' \<Rightarrow> Inr (ea, s)
      | DataRegisterDirect \<Rightarrow>
          Inr (\<lparr>ea_value = data_' s ! reg instruction index, requires_fetch = False\<rparr>, s)
      | AddressRegisterDirect \<Rightarrow>
          Inr (\<lparr>ea_value = address_' s ! reg instruction index, requires_fetch = False\<rparr>, s)
      | Quick \<Rightarrow>
          Inr (\<lparr>ea_value = quick (operation instruction) opcode, requires_fetch = False\<rparr>, s)
      | ImmediateData \<Rightarrow>
          (case size_' instruction of
             Byte \<Rightarrow>
               (let (w, s') = read_pc_u16 H s
                in Inr (\<lparr>ea_value = ucast (w AND 0xff), requires_fetch = False\<rparr>, s'))
           | Word \<Rightarrow>
               (let (w, s') = read_pc_u16 H s
                in Inr (\<lparr>ea_value = ucast w, requires_fetch = False\<rparr>, s'))
           | LongWord \<Rightarrow>
               (let (l, s') = read_pc_u32 H s
                in Inr (\<lparr>ea_value = l, requires_fetch = False\<rparr>, s')))
      | AbsoluteShort \<Rightarrow>
          (let (w, s') = read_pc_u16 H s
           in Inr (\<lparr>ea_value = scast w, requires_fetch = True\<rparr>, s'))
      | AbsoluteLong \<Rightarrow>
          (let (l, s') = read_pc_u32 H s
           in Inr (\<lparr>ea_value = l, requires_fetch = True\<rparr>, s'))
      | AddressRegisterIndirect \<Rightarrow>
          Inr (\<lparr>ea_value = address_' s ! reg instruction index, requires_fetch = True\<rparr>, s)
      | AddressRegisterIndirectWithPostincrement \<Rightarrow>
          (let r = reg instruction index;
               v = address_' s ! r;
               step = (case size_' instruction of
                         Byte \<Rightarrow> byte_increments ! r | Word \<Rightarrow> 2 | LongWord \<Rightarrow> 4)
           in Inr (\<lparr>ea_value = v, requires_fetch = True\<rparr>,
                   s\<lparr>address_' := (address_' s)[r := address_' s ! r + step]\<rparr>))
      | AddressRegisterIndirectWithPredecrement \<Rightarrow>
          (let r = reg instruction index;
               step = (case size_' instruction of
                         Byte \<Rightarrow> byte_increments ! r | Word \<Rightarrow> 2 | LongWord \<Rightarrow> 4);
               s' = s\<lparr>address_' := (address_' s)[r := address_' s ! r - step]\<rparr>
           in Inr (\<lparr>ea_value = address_' s' ! r, requires_fetch = True\<rparr>, s'))
      | AddressRegisterIndirectWithDisplacement \<Rightarrow>
          (let base = address_' s ! reg instruction index;
               (w, s') = read_pc_u16 H s
           in Inr (\<lparr>ea_value = base + scast w, requires_fetch = True\<rparr>, s'))
      | AddressRegisterIndirectWithIndex8bitDisplacement \<Rightarrow>
          (let base = address_' s ! reg instruction index;
               (d, s') = index_8bitdisplacement H s
           in Inr (\<lparr>ea_value = base + d, requires_fetch = True\<rparr>, s'))
      | ProgramCounterIndirectWithDisplacement \<Rightarrow>
          (let base = program_counter_' s;
               (w, s') = read_pc_u16 H s
           in Inr (\<lparr>ea_value = base + scast w, requires_fetch = True\<rparr>, s'))
      | ProgramCounterIndirectWithIndex8bitDisplacement \<Rightarrow>
          (let base = program_counter_' s;
               (d, s') = index_8bitdisplacement H s
           in Inr (\<lparr>ea_value = base + d, requires_fetch = True\<rparr>, s'))
      | UnhandledMode \<Rightarrow> Inl AssertionFailure)"

section \<open>Running instructions\<close>

text \<open>
  The steps the executor's dispatch names; \<open>UnhandledStep\<close> stands for any other
  enumerator of \<^verbatim>\<open>Step\<close> (\<^verbatim>\<open>Sequence.hpp\<close> is not part of the sources at hand),
  which the dispatch leaves to its asserting \<^verbatim>\<open>default\<close> branch. The operand slot
  of a step, \<^verbatim>\<open>int(step) & 1\<close> in the source, is 0 for the \<^verbatim>\<open>Op1\<close> steps and 1 for
  the \<^verbatim>\<open>Op2\<close> steps.
\<close>

datatype Step = FetchOp1 | FetchOp2 | Perform | StoreOp1 | StoreOp2 | UnhandledStep

definition step_index :: "Step \<Rightarrow> nat" where
  "step_index step = (if step = FetchOp2 \<or> step = StoreOp2 then 1 else 0)"

text \<open>
  Modelled from the spec: the decoder \<^verbatim>\<open>Predecoder::decode\<close> (\<^verbatim>\<open>Decoder.hpp\<close> is
  not part of the sources at hand), a total, stateless mapping of the 16-bit opcode word
  to an instruction descriptor or to the undefined marker: the field \<open>decode\<close>, a
  function of the opcode alone.

  The other collaborators whose code is not part of the sources at hand are parameters
  too: \<^verbatim>\<open>quick\<close>, the step list of an operation (\<^verbatim>\<open>Sequence\<close>) and the semantic
  evaluator \<^verbatim>\<open>perform\<close>, which receives the instruction, both operands by reference
  and the executor itself (its status and its flow-control methods), and so may change
  all three.
\<close>

record 'b Collaborators =
  decode :: "u16 \<Rightarrow> Preinstruction"
  quick :: "Operation \<Rightarrow> u16 \<Rightarrow> u32"
  sequence :: "Operation \<Rightarrow> Step list"
  perform :: "Preinstruction \<Rightarrow> u32 \<Rightarrow> u32 \<Rightarrow> 'b Executor \<Rightarrow> u32 \<times> u32 \<times> 'b Executor"

text \<open>
  One pass through the body of the \<^verbatim>\<open>while(!sequence.empty())\<close> loop: the temporary
  \<^verbatim>\<open>operand_\<close> array and the executor come back updated; \<^verbatim>\<open>effective_address_\<close>
  is only read.
\<close>

definition perform_step ::
  "'b BusHandler \<Rightarrow> 'b Collaborators \<Rightarrow> Preinstruction \<Rightarrow> EffectiveAddress list \<Rightarrow> Step \<Rightarrow>
   u32 list \<times> 'b Executor \<Rightarrow> Fault + (u32 list \<times> 'b Executor)" where
  "perform_step H C instruction effective_address step st =
     (let (operand, s) = st; index = step_index step in
      if step = FetchOp1 \<or> step = FetchOp2 then
        (if \<not> requires_fetch (effective_address ! index) then Inr (operand, s)
         else (let (v, s') = Executor_read H (size_' instruction)
                               (ea_value (effective_address ! index)) (operand ! index) s
               in Inr (operand[index := v], s')))
      else if step = Perform then
        (let (o0, o1, s') = perform C instruction (operand ! 0) (operand ! 1) s
         in Inr (operand[0 := o0, 1 := o1], s'))
      else if step = StoreOp1 \<or> step = StoreOp2 then
        (if \<not> requires_fetch (effective_address ! index) then
           (if \<not> (mode instruction index = DataRegisterDirect \<or>
                  mode instruction index = AddressRegisterDirect)
            then Inl AssertionFailure
            else if mode instruction index = DataRegisterDirect
            then Inr (operand,
                      s\<lparr>data_' := (data_' s)[reg instruction index := operand ! index]\<rparr>)
            else Inr (operand,
                      s\<lparr>address_' := (address_' s)[reg instruction index := operand ! index]\<rparr>))
         else Inr (operand,
                   Executor_write H (size_' instruction)
                     (ea_value (effective_address ! index)) (operand ! index) s))
      else Inl AssertionFailure)"

fun run_sequence ::
  "'b BusHandler \<Rightarrow> 'b Collaborators \<Rightarrow> Preinstruction \<Rightarrow> EffectiveAddress list \<Rightarrow> Step list \<Rightarrow>
   u32 list \<times> 'b Executor \<Rightarrow> Fault + (u32 list \<times> 'b Executor)" where
  "run_sequence H C instruction effective_address [] st = Inr st"
| "run_sequence H C instruction effective_address (step # steps) st =
     (case perform_step H C instruction effective_address step st of
        Inl f \<Rightarrow> Inl f
      | Inr st' \<Rightarrow> run_sequence H C instruction effective_address steps st')"

text \<open>
  The head of the loop body of \<^verbatim>\<open>run_for_instructions\<close>: the instruction's
  start address is recorded and the opcode word is read at the program counter.
\<close>

definition fetch_opcode :: "'b BusHandler \<Rightarrow> 'b Executor \<Rightarrow> u16 \<times> 'b Executor" where
  "fetch_opcode H s = read_pc_u16 H (s\<lparr>instruction_address_' := program_counter_' s\<rparr>)"

text \<open>
  One pass through the body of the outer loop of \<^verbatim>\<open>run_for_instructions\<close>.
  \<open>ea0\<close> and \<open>ea1\<close> are the starting contents of the two uninitialised
  \<^verbatim>\<open>EffectiveAddress\<close> locals.
\<close>

definition run_instruction ::
  "'b BusHandler \<Rightarrow> 'b Collaborators \<Rightarrow> EffectiveAddress \<Rightarrow> EffectiveAddress \<Rightarrow>
   'b Executor \<Rightarrow> Fault + 'b Executor" where
  "run_instruction H C ea0 ea1 s =
     (let (opcode, s1) = fetch_opcode H s;
          instruction = decode C opcode
      in if is_supervisor_' (status_' s1) = 0 \<and> requires_supervisor instruction
         then Inr (raise_exception H 8 s1)
         else if operation instruction = Undefined
         then (if opcode AND 0xf000 = 0xa000 then Inr (raise_exception H 10 s1)
               else if opcode AND 0xf000 = 0xf000 then Inr (raise_exception H 11 s1)
               else Inr (raise_exception H 4 s1))
         else
           (case calculate_effective_address H (quick C) instruction opcode 0 ea0 s1 of
              Inl f \<Rightarrow> Inl f
            | Inr (e0, s2) \<Rightarrow>
               (case calculate_effective_address H (quick C) instruction opcode 1 ea1 s2 of
                  Inl f \<Rightarrow> Inl f
                | Inr (e1, s3) \<Rightarrow>
                   (case run_sequence H C instruction [e0, e1]
                           (sequence C (operation instruction)) ([ea_value e0, ea_value e1], s3) of
                      Inl f \<Rightarrow> Inl f
                    | Inr (operand, s4) \<Rightarrow> Inr s4))))"

fun run_for_instructions ::
  "'b BusHandler \<Rightarrow> 'b Collaborators \<Rightarrow> EffectiveAddress \<Rightarrow> EffectiveAddress \<Rightarrow> nat \<Rightarrow>
   'b Executor \<Rightarrow> Fault + 'b Executor" where
  "run_for_instructions H C ea0 ea1 0 s = Inr s"
| "run_for_instructions H C ea0 ea1 (Suc count) s =
     (case run_instruction H C ea0 ea1 s of
        Inl f \<Rightarrow> Inl f
      | Inr s' \<Rightarrow> run_for_instructions H C ea0 ea1 count s')"

section \<open>Notions the properties are stated with\<close>

text \<open>
  The supervisor stack pointer of a state: register A7 in supervisor mode, the banked
  copy \<^verbatim>\<open>stack_pointers_[1]\<close> in user mode.
\<close>

definition supervisor_stack :: "'b Executor \<Rightarrow> u32" where
  "supervisor_stack s =
     (if is_supervisor_' (status_' s) = 1 then address_' s ! 7 else stack_pointers_' s ! 1)"

section \<open>A bus handler over a memory image\<close>

text \<open>
  A host's bus handler over a flat memory image, one byte per address, words and long
  words stored big-endian as the 68000 does. It serves to run the executor on concrete
  memory contents.
\<close>

definition RAM :: "(u32 \<Rightarrow> u8) BusHandler" where
  "RAM =
     \<lparr> read_u8 = (\<lambda>a m. (m a, m)),
       read_u16 = (\<lambda>a m. (push_bit 8 (ucast (m a)) OR ucast (m (a + 1)), m)),
       read_u32 = (\<lambda>a m. (push_bit 24 (ucast (m a)) OR push_bit 16 (ucast (m (a + 1)))
                             OR push_bit 8 (ucast (m (a + 2))) OR ucast (m (a + 3)), m)),
       write_u8 = (\<lambda>a v m. m(a := v)),
       write_u16 = (\<lambda>a v m. m(a := ucast (drop_bit 8 v), a + 1 := ucast v)),
       write_u32 = (\<lambda>a v m. m(a := ucast (drop_bit 24 v), a + 1 := ucast (drop_bit 16 v),
                               a + 2 := ucast (drop_bit 8 v), a + 3 := ucast v)) \<rparr>"

text \<open>
  The memory image of the reset test: the long word \<open>0x00123456\<close> at address 0 and the
  long word \<open>0x00789ABC\<close> at address 4, zero elsewhere.
\<close>

definition reset_image :: "u32 \<Rightarrow> u8" where
  "reset_image =
     (\<lambda>a. 0)(0 := 0x00, 1 := 0x12, 2 := 0x34, 3 := 0x56, 4 := 0x00, 5 := 0x78, 6 := 0x9A, 7 := 0xBC)"

text \<open>
  An executor before its constructor calls \<^verbatim>\<open>reset\<close>: the default member
  initialisers give \<^verbatim>\<open>active_stack_pointer_ = 0\<close>; the registers, left
  uninitialised by the source, are taken to be zero here.
\<close>

definition zero_status :: Status where
  "zero_status =
     \<lparr> trace_flag_' = False, is_supervisor_' = 0, interrupt_level_' = 0, zero_flag_' = False,
       carry_flag_' = False, extend_flag_' = False, overflow_flag_' = False,
       negative_flag_' = False \<rparr>"

definition blank :: "'b \<Rightarrow> 'b Executor" where
  "blank b =
     \<lparr> bus_handler_' = b, bus_log = [], status_' = zero_status, program_counter_' = 0,
       data_' = replicate 8 0, address_' = replicate 8 0, stack_pointers_' = replicate 2 0,
       instruction_address_' = 0, active_stack_pointer_' = 0 \<rparr>"

text \<open>The constructor: \<^verbatim>\<open>Executor(BusHandler &)\<close> calls \<^verbatim>\<open>reset\<close>.\<close>

definition construct :: "'b BusHandler \<Rightarrow> 'b \<Rightarrow> 'b Executor" where
  "construct H b = reset H (blank b)"

section \<open>Concrete states and collaborators\<close>

text \<open>
  A memory image with four opcode words from address \<open>0x400\<close> (\<open>0x4E72\<close>, the
  privileged STOP; \<open>0xA123\<close>; \<open>0xF001\<close>; \<open>0x4AFC\<close>) and the exception vectors
  4, 8, 10 and 11 at \<open>0x10\<close>, \<open>0x20\<close>, \<open>0x28\<close> and \<open>0x2C\<close>.
\<close>

definition example_image :: "u32 \<Rightarrow> u8" where
  "example_image =
     (\<lambda>a. 0)(0x400 := 0x4E, 0x401 := 0x72, 0x402 := 0xA1, 0x403 := 0x23,
             0x404 := 0xF0, 0x405 := 0x01, 0x406 := 0x4A, 0x407 := 0xFC,
             0x12 := 0x05, 0x22 := 0x06, 0x2A := 0x07, 0x2E := 0x08)"

text \<open>A processor in user mode, its bookkeeping current, about to fetch at \<open>0x400\<close>.\<close>

definition user_mode_example :: "(u32 \<Rightarrow> u8) Executor" where
  "user_mode_example =
     \<lparr> bus_handler_' = example_image, bus_log = [], status_' = zero_status,
       program_counter_' = 0x400,
       data_' = [0, 1, 2, 3, 4, 5, 6, 7],
       address_' = [0x10000, 0x10100, 0x10200, 0x10300, 0x10400, 0x10500, 0x10600, 0x1000],
       stack_pointers_' = [0, 0x2000],
       instruction_address_' = 0, active_stack_pointer_' = 0 \<rparr>"

text \<open>
  A decoder that knows one privileged operation and leaves every other opcode undefined,
  with an evaluator that changes nothing.
\<close>

definition example_instruction :: "AddressingMode \<Rightarrow> nat \<Rightarrow> AddressingMode \<Rightarrow> nat \<Rightarrow> DataSize \<Rightarrow> Preinstruction" where
  "example_instruction m0 r0 m1 r1 sz =
     \<lparr> operation = Mnemonic 0, mode0 = m0, reg0 = r0, mode1 = m1, reg1 = r1, size_' = sz,
       requires_supervisor = False \<rparr>"

definition example_collaborators :: "(u32 \<Rightarrow> u8) Collaborators" where
  "example_collaborators =
     \<lparr> decode = (\<lambda>opcode.
         if opcode = 0x4E72
         then (example_instruction ImmediateData 0 None_' 0 Word)\<lparr>requires_supervisor := True\<rparr>
         else (example_instruction None_' 0 None_' 0 Word)\<lparr>operation := Undefined\<rparr>),
       quick = (\<lambda>operation opcode. 0),
       sequence = (\<lambda>operation. [Perform]),
       perform = (\<lambda>instruction o0 o1 s. (o0, o1, s)) \<rparr>"

definition blank_ea :: EffectiveAddress where
  "blank_ea = \<lparr>ea_value = 0, requires_fetch = False\<rparr>"

text \<open>A snapshot in user mode, with distinct user and supervisor stack pointers.\<close>

definition user_snapshot :: Registers where
  "user_snapshot =
     \<lparr> data = replicate 8 0, address = replicate 7 0, user_stack_pointer = 0x1000,
       supervisor_stack_pointer = 0x2000, status = 0, program_counter = 0x400 \<rparr>"

section \<open>Auxiliary facts\<close>

subsection \<open>Fixed-size arrays\<close>

lemma upt_8: "[0..<8] = [0, 1, 2, 3, 4, 5, 6, 7]"
  by (simp add: upt_rec)

lemma upt_7: "[0..<7] = [0, 1, 2, 3, 4, 5, 6]"
  by (simp add: upt_rec)

lemma replicate_8: "replicate 8 x = [x, x, x, x, x, x, x, x]"
  by (simp add: numeral_eq_Suc)

lemma replicate_7: "replicate 7 x = [x, x, x, x, x, x, x]"
  by (simp add: numeral_eq_Suc)

lemma replicate_2: "replicate 2 x = [x, x]"
  by (simp add: numeral_eq_Suc)

lemma length_8E:
  assumes "length xs = 8"
  obtains a b c d e f g h where "xs = [a, b, c, d, e, f, g, h]"
  using assms by (auto simp add: length_Suc_conv numeral_eq_Suc)

lemma length_2E:
  assumes "length xs = 2"
  obtains a b where "xs = [a, b]"
  using assms by (auto simp add: length_Suc_conv numeral_eq_Suc)

lemmas fixture_defs =
  construct_def blank_def zero_status_def reset_image_def example_image_def
  user_mode_example_def example_collaborators_def example_instruction_def blank_ea_def
  RAM_def replicate_8 replicate_7 replicate_2 upt_8 upt_7

lemmas executor_defs =
  reset_def raise_exception_def did_update_status_def get_state_def set_state_def
  bus_read_u8_def bus_read_u16_def bus_read_u32_def bus_write_u8_def bus_write_u16_def
  bus_write_u32_def read_pc_u16_def read_pc_u32_def fetch_opcode_def set_status_def
  Status_status_def well_formed_def Let_def

subsection \<open>The status word\<close>

lemma bit_interrupt_level_high: "3 \<le> n \<Longrightarrow> bit (x :: 3 word) n = False"
  using bit_imp_le_length [of x n] by auto

lemma bit_is_supervisor_high: "1 \<le> n \<Longrightarrow> bit (x :: 1 word) n = False"
  using bit_imp_le_length [of x n] by auto

lemma bit_Status_status_flags:
  "bit (Status_status st) 0 = carry_flag_' st"
  "bit (Status_status st) (Suc 0) = overflow_flag_' st"
  "bit (Status_status st) 2 = zero_flag_' st"
  "bit (Status_status st) 3 = negative_flag_' st"
  "bit (Status_status st) 4 = extend_flag_' st"
  "bit (Status_status st) 15 = trace_flag_' st"
  by (simp_all add: Status_status_def bit_simps bit_interrupt_level_high bit_is_supervisor_high)

lemma is_supervisor_of_status:
  "(ucast (drop_bit 13 (Status_status st)) :: 1 word) = is_supervisor_' st"
  by (rule bit_word_eqI)
    (simp add: Status_status_def bit_simps bit_interrupt_level_high bit_is_supervisor_high)

lemma interrupt_level_of_status:
  "(ucast (drop_bit 8 (Status_status st)) :: 3 word) = interrupt_level_' st"
  by (rule bit_word_eqI) (simp add: Status_status_def bit_simps)

lemma set_status_status: "set_status (Status_status st) = st"
  by (simp add: set_status_def is_supervisor_of_status interrupt_level_of_status
      bit_Status_status_flags)

lemma supervisor_cases: "(x :: 1 word) = 0 \<or> x = 1"
proof -
  have "unat x < 2" using unsigned_less [of x] by simp
  then have "unat x = unat (0 :: 1 word) \<or> unat x = unat (1 :: 1 word)" by auto
  then show ?thesis by (simp only: word_unat_eq_iff)
qed

subsection \<open>The top four bits of an opcode\<close>

lemma high_nibble_mask: "(0xf000 :: 16 word) = push_bit 12 (mask 4)"
  by (simp add: mask_eq_exp_minus_1 push_bit_eq_mult)

lemma high_nibble: "(opcode :: 16 word) AND 0xf000 = push_bit 12 (drop_bit 12 opcode)"
  unfolding high_nibble_mask by (rule bit_word_eqI) (auto simp add: bit_simps)

lemma unat_high_nibble:
  "unat ((opcode :: 16 word) AND 0xf000) = (unat opcode div 4096) * 4096"
proof -
  have lt: "unat opcode < 65536" using unsigned_less [of opcode] by simp
  have "unat (push_bit 12 (drop_bit 12 opcode)) =
        take_bit 16 (push_bit 12 (drop_bit 12 (unat opcode)))"
    by (simp add: unsigned_push_bit_eq unat_drop_bit_eq del: push_bit_eq_mult)
  also have "\<dots> = (unat opcode div 4096 * 4096) mod 65536"
    by (simp add: push_bit_eq_mult drop_bit_eq_div take_bit_eq_mod)
  also have "\<dots> = unat opcode div 4096 * 4096"
    using lt by simp
  finally show ?thesis by (simp only: high_nibble)
qed

lemma line_1010:
  "(opcode :: 16 word) AND 0xf000 = 0xa000 \<longleftrightarrow> 0xA000 \<le> opcode \<and> opcode \<le> 0xAFFF"
proof -
  have "opcode AND 0xf000 = 0xa000 \<longleftrightarrow> unat (opcode AND 0xf000) = unat (0xa000 :: 16 word)"
    by (simp only: word_unat_eq_iff)
  then show ?thesis
    by (simp add: unat_high_nibble word_le_nat_alt) arith
qed

lemma line_1111: "(opcode :: 16 word) AND 0xf000 = 0xf000 \<longleftrightarrow> 0xF000 \<le> opcode"
proof -
  have "unat opcode < 65536" using unsigned_less [of opcode] by simp
  moreover have
    "opcode AND 0xf000 = 0xf000 \<longleftrightarrow> unat (opcode AND 0xf000) = unat (0xf000 :: 16 word)"
    by (simp only: word_unat_eq_iff)
  ultimately show ?thesis
    by (simp add: unat_high_nibble word_le_nat_alt) arith
qed

subsection \<open>What the bus log records\<close>

lemma bus_log_Executor_read:
  "bus_log (snd (Executor_read H sz a v s)) = bus_log s @ [BusRead sz a]"
  by (cases sz) (simp_all add: Executor_read_def bus_read_u8_def bus_read_u16_def
      bus_read_u32_def Let_def split_beta)

lemma bus_log_Executor_write:
  "\<exists>x. bus_log (Executor_write H sz a v s) = bus_log s @ [BusWrite sz a x]"
  by (cases sz) (simp_all add: Executor_write_def bus_write_u8_def bus_write_u16_def
      bus_write_u32_def)

lemma status_fetch_opcode: "status_' (snd (fetch_opcode H s)) = status_' s"
  by (simp add: fetch_opcode_def read_pc_u16_def bus_read_u16_def Let_def split_beta)

lemma bus_log_raise_exception_last:
  "last (bus_log (raise_exception H v s)) = BusRead LongWord (4 * v)"
  by (simp add: raise_exception_def bus_read_u32_def Let_def split_beta push_bit_eq_mult)

lemma is_supervisor_raise_exception:
  "is_supervisor_' (status_' (raise_exception H v s)) = 1"
  by (simp add: raise_exception_def bus_read_u32_def bus_write_u32_def bus_write_u16_def
      did_update_status_def Let_def split_beta)

lemma status_did_update_status: "status_' (did_update_status s) = status_' s"
  by (simp add: did_update_status_def Let_def)

lemma status_reset: "status_' (reset H s) = set_status 0x2380"
  by (simp add: reset_def bus_read_u32_def Let_def split_beta status_did_update_status)

subsection \<open>Where the stack-pointer bookkeeping is kept current\<close>

lemma did_update_status_bookkeeping:
  "active_stack_pointer_' (did_update_status s) =
     unat (is_supervisor_' (status_' (did_update_status s)))"
  by (simp add: did_update_status_def Let_def)

lemma reset_bookkeeping:
  "active_stack_pointer_' (reset H s) = unat (is_supervisor_' (status_' (reset H s)))"
  by (simp add: reset_def bus_read_u32_def Let_def split_beta did_update_status_def)

lemma raise_exception_bookkeeping:
  "active_stack_pointer_' (raise_exception H v s) =
     unat (is_supervisor_' (status_' (raise_exception H v s)))"
  by (simp add: raise_exception_def bus_read_u32_def bus_write_u32_def bus_write_u16_def
      Let_def split_beta did_update_status_def)

lemma set_state_active_stack_pointer:
  "active_stack_pointer_' (set_state state s) = active_stack_pointer_' s"
  by (simp add: set_state_def Let_def)

lemma set_state_is_supervisor:
  "is_supervisor_' (status_' (set_state state s)) = ucast (drop_bit 13 (status state))"
  by (simp add: set_state_def Let_def set_status_def)

subsection \<open>Reset and the stack pointer\<close>

lemma reset_supervisor_stack_pointer:
  fixes s :: "'b Executor"
  assumes "well_formed s"
  shows "supervisor_stack_pointer (fst (get_state (reset H s))) =
           (stack_pointers_' s)[active_stack_pointer_' s := address_' s ! 7] ! 1"
    and "data (fst (get_state (reset H s))) ! 7 = fst (read_u32 H 0 (bus_handler_' s))"
proof -
  from assms obtain d0 d1 d2 d3 d4 d5 d6 d7 where
    d: "data_' s = [d0, d1, d2, d3, d4, d5, d6, d7]"
    by (auto simp add: well_formed_def elim: length_8E)
  from assms obtain a0 a1 a2 a3 a4 a5 a6 a7 where
    a: "address_' s = [a0, a1, a2, a3, a4, a5, a6, a7]"
    by (auto simp add: well_formed_def elim: length_8E)
  from assms obtain u w where sp: "stack_pointers_' s = [u, w]"
    by (auto simp add: well_formed_def elim: length_2E)
  have one: "is_supervisor_' (set_status 0x2380) = 1"
    by (simp add: set_status_def)
  show "supervisor_stack_pointer (fst (get_state (reset H s))) =
           (stack_pointers_' s)[active_stack_pointer_' s := address_' s ! 7] ! 1"
    by (cases "active_stack_pointer_' s")
      (simp_all add: reset_def get_state_def did_update_status_def bus_read_u32_def
        Let_def split_beta d a sp one)
  show "data (fst (get_state (reset H s))) ! 7 = fst (read_u32 H 0 (bus_handler_' s))"
    by (simp add: reset_def get_state_def did_update_status_def bus_read_u32_def
        Let_def split_beta d a sp one upt_8)
qed

subsection \<open>Effective addresses of the specified modes\<close>

lemma calculate_effective_address_handled:
  assumes "mode instruction index \<noteq> UnhandledMode"
  shows "\<exists>e s'. calculate_effective_address H q instruction opcode index ea s = Inr (e, s')"
  using assms
  by (cases "mode instruction index"; cases "size_' instruction")
    (simp_all add: calculate_effective_address_def Let_def split_beta)

subsection \<open>What exception delivery does\<close>

text \<open>
  \<open>raise_exception\<close> with vector \<open>v\<close> captures the status word as it is on
  entry, sets the supervisor bit and swaps the stack-pointer bank, saving A7 in the slot
  the bookkeeping index names, then issues exactly three bus accesses: a long-word write
  of the instruction's start address at the stack pointer minus 4, a word write of the
  captured status at the stack pointer minus 6, and a long-word read at \<open>4 * v\<close>
  whose value becomes the program counter. Register A7 ends 6 below the stack pointer the
  swap selected. That is the supervisor stack pointer if the bookkeeping index agreed
  with the supervisor bit on entry.
\<close>

lemma raise_exception_effect:
  fixes s :: "'b Executor"
  assumes wf: "well_formed s"
  shows "let s' = raise_exception H v s;
             sp = (stack_pointers_' s)[active_stack_pointer_' s := address_' s ! 7] ! 1;
             b1 = write_u32 H (sp - 4) (instruction_address_' s) (bus_handler_' s);
             b2 = write_u16 H (sp - 6) (Status_status (status_' s)) b1
         in bus_log s' = bus_log s @
              [BusWrite LongWord (sp - 4) (instruction_address_' s),
               BusWrite Word (sp - 6) (ucast (Status_status (status_' s))),
               BusRead LongWord (4 * v)] \<and>
            status_' s' = (status_' s)\<lparr>is_supervisor_' := 1\<rparr> \<and>
            active_stack_pointer_' s' = 1 \<and>
            stack_pointers_' s' =
              (stack_pointers_' s)[active_stack_pointer_' s := address_' s ! 7] \<and>
            address_' s' ! 7 = sp - 6 \<and>
            program_counter_' s' = fst (read_u32 H (4 * v) b2) \<and>
            bus_handler_' s' = snd (read_u32 H (4 * v) b2) \<and>
            (active_stack_pointer_' s = unat (is_supervisor_' (status_' s)) \<longrightarrow>
               sp = supervisor_stack s)"
proof -
  from wf obtain a0 a1 a2 a3 a4 a5 a6 a7 where
    a: "address_' s = [a0, a1, a2, a3, a4, a5, a6, a7]"
    by (auto simp add: well_formed_def elim: length_8E)
  from wf obtain u w where sp: "stack_pointers_' s = [u, w]"
    by (auto simp add: well_formed_def elim: length_2E)
  have v4: "push_bit 2 v = 4 * v" by (simp add: push_bit_eq_mult)
  from supervisor_cases [of "is_supervisor_' (status_' s)"] show ?thesis
    by (auto simp add: raise_exception_def did_update_status_def bus_write_u32_def
        bus_write_u16_def bus_read_u32_def Let_def split_beta a sp v4 supervisor_stack_def)
qed

lemma raise_exception_effect_example:
  "well_formed user_mode_example \<and>
   active_stack_pointer_' user_mode_example =
     unat (is_supervisor_' (status_' user_mode_example)) \<and>
   supervisor_stack user_mode_example = 0x2000 \<and>
   bus_log (raise_exception RAM 8 user_mode_example) =
     [BusWrite LongWord 0x1FFC 0, BusWrite Word 0x1FFA 0, BusRead LongWord 0x20] \<and>
   is_supervisor_' (status_' (raise_exception RAM 8 user_mode_example)) = 1 \<and>
   address_' (raise_exception RAM 8 user_mode_example) ! 7 = 0x1FFA \<and>
   program_counter_' (raise_exception RAM 8 user_mode_example) = 0x600"
proof -
  have w: "well_formed user_mode_example"
    by (simp add: user_mode_example_def well_formed_def)
  have i: "active_stack_pointer_' user_mode_example =
     unat (is_supervisor_' (status_' user_mode_example))"
    by (simp add: user_mode_example_def zero_status_def)
  have e: "supervisor_stack user_mode_example = 0x2000"
    by (simp add: user_mode_example_def zero_status_def supervisor_stack_def)
  have st: "Status_status (status_' user_mode_example) = 0"
    by (simp add: user_mode_example_def zero_status_def Status_status_def)
  have sp: "(stack_pointers_' user_mode_example)
              [active_stack_pointer_' user_mode_example := address_' user_mode_example ! 7] ! 1 =
            0x2000"
    by (simp add: user_mode_example_def)
  have l: "bus_log user_mode_example = []" "instruction_address_' user_mode_example = 0"
    by (simp_all add: user_mode_example_def)
  have pc: "fst (read_u32 RAM 0x20
              (write_u16 RAM 0x1FFA 0 (write_u32 RAM 0x1FFC 0 (bus_handler_' user_mode_example)))) =
            0x600"
    by (simp add: user_mode_example_def example_image_def RAM_def)
  from raise_exception_effect [OF w, of RAM 8] show ?thesis
    by (simp add: Let_def w i e st sp l pc)
qed

subsection \<open>When a step of the sequence fails its assertion\<close>

lemma perform_step_fault:
  "perform_step H C instruction effective_address step (operand, s) = Inl f \<longleftrightarrow>
     step = UnhandledStep \<or>
     (step = StoreOp1 \<or> step = StoreOp2) \<and>
     \<not> requires_fetch (effective_address ! step_index step) \<and>
     mode instruction (step_index step) \<noteq> DataRegisterDirect \<and>
     mode instruction (step_index step) \<noteq> AddressRegisterDirect"
  by (cases step; cases f) (auto simp add: perform_step_def Let_def split_beta)

section \<open>Properties of the executor\<close>

subsection \<open>Exception vector selection\<close>

text \<open>
  Claim C1. After the opcode fetch, when the decoded instruction requires supervisor mode
  and the processor is in user mode, or when the opcode decodes as undefined, the
  instruction is not executed: the whole pass is one call of \<open>raise_exception\<close> on the
  state left by the fetch, with vector 8 for the privilege violation and otherwise
  vector 10 for an opcode in \<open>0xA000\<close> to \<open>0xAFFF\<close>, 11 for one in \<open>0xF000\<close> to
  \<open>0xFFFF\<close> and 4 for any other, and the loop goes on to the next instruction. The
  result does not mention the evaluator \<open>perform\<close>, the step list or the
  effective-address calculation, so none of them takes part. The vector shows in the
  outcome: the last bus access of the pass is the long-word read at four times the vector,
  and the processor ends in supervisor mode.
\<close>

theorem exception_vector_selection:
  fixes s :: "'b Executor"
  assumes fetch: "fetch_opcode H s = (opcode, s1)"
  shows
    "(is_supervisor_' (status_' s) = 0 \<and> requires_supervisor (decode C opcode)) \<or>
     operation (decode C opcode) = Undefined \<longrightarrow>
       (let vector =
              (if is_supervisor_' (status_' s) = 0 \<and> requires_supervisor (decode C opcode)
               then 8
               else if 0xA000 \<le> opcode \<and> opcode \<le> 0xAFFF then 10
               else if 0xF000 \<le> opcode then 11
               else 4)
        in run_instruction H C ea0 ea1 s = Inr (raise_exception H vector s1) \<and>
           run_for_instructions H C ea0 ea1 (Suc count) s =
             run_for_instructions H C ea0 ea1 count (raise_exception H vector s1) \<and>
           last (bus_log (raise_exception H vector s1)) = BusRead LongWord (4 * vector) \<and>
           is_supervisor_' (status_' (raise_exception H vector s1)) = 1)"
proof -
  have st: "status_' s1 = status_' s"
    using status_fetch_opcode [of H s] fetch by simp
  show ?thesis
    by (simp add: run_instruction_def Let_def fetch st line_1010 line_1111
        bus_log_raise_exception_last is_supervisor_raise_exception)
qed

theorem exception_vector_selection_witness:
  "fetch_opcode RAM user_mode_example =
     (0x4E72, snd (fetch_opcode RAM user_mode_example)) \<and>
   is_supervisor_' (status_' user_mode_example) = 0 \<and>
   requires_supervisor (decode example_collaborators 0x4E72) \<and>
   run_instruction RAM example_collaborators blank_ea blank_ea user_mode_example =
     Inr (raise_exception RAM 8 (snd (fetch_opcode RAM user_mode_example))) \<and>
   fetch_opcode RAM (user_mode_example\<lparr>program_counter_' := 0x402\<rparr>) =
     (0xA123, snd (fetch_opcode RAM (user_mode_example\<lparr>program_counter_' := 0x402\<rparr>))) \<and>
   operation (decode example_collaborators 0xA123) = Undefined \<and>
   run_instruction RAM example_collaborators blank_ea blank_ea
       (user_mode_example\<lparr>program_counter_' := 0x402\<rparr>) =
     Inr (raise_exception RAM 10
            (snd (fetch_opcode RAM (user_mode_example\<lparr>program_counter_' := 0x402\<rparr>)))) \<and>
   fetch_opcode RAM (user_mode_example\<lparr>program_counter_' := 0x404\<rparr>) =
     (0xF001, snd (fetch_opcode RAM (user_mode_example\<lparr>program_counter_' := 0x404\<rparr>))) \<and>
   run_instruction RAM example_collaborators blank_ea blank_ea
       (user_mode_example\<lparr>program_counter_' := 0x404\<rparr>) =
     Inr (raise_exception RAM 11
            (snd (fetch_opcode RAM (user_mode_example\<lparr>program_counter_' := 0x404\<rparr>)))) \<and>
   fetch_opcode RAM (user_mode_example\<lparr>program_counter_' := 0x406\<rparr>) =
     (0x4AFC, snd (fetch_opcode RAM (user_mode_example\<lparr>program_counter_' := 0x406\<rparr>))) \<and>
   run_instruction RAM example_collaborators blank_ea blank_ea
       (user_mode_example\<lparr>program_counter_' := 0x406\<rparr>) =
     Inr (raise_exception RAM 4
            (snd (fetch_opcode RAM (user_mode_example\<lparr>program_counter_' := 0x406\<rparr>)))) \<and>
   program_counter_' (raise_exception RAM 8 (snd (fetch_opcode RAM user_mode_example))) = 0x600 \<and>
   program_counter_' (raise_exception RAM 10
     (snd (fetch_opcode RAM (user_mode_example\<lparr>program_counter_' := 0x402\<rparr>)))) = 0x700 \<and>
   program_counter_' (raise_exception RAM 11
     (snd (fetch_opcode RAM (user_mode_example\<lparr>program_counter_' := 0x404\<rparr>)))) = 0x800 \<and>
   program_counter_' (raise_exception RAM 4
     (snd (fetch_opcode RAM (user_mode_example\<lparr>program_counter_' := 0x406\<rparr>)))) = 0x500"
proof -
  have c0: "program_counter_' (raise_exception RAM 8 (snd (fetch_opcode RAM user_mode_example))) =
            0x600"
    by (simp add: fixture_defs executor_defs)
  have c2: "program_counter_' (raise_exception RAM 10
     (snd (fetch_opcode RAM (user_mode_example\<lparr>program_counter_' := 0x402\<rparr>)))) = 0x700"
    by (simp add: fixture_defs executor_defs)
  have c4: "program_counter_' (raise_exception RAM 11
     (snd (fetch_opcode RAM (user_mode_example\<lparr>program_counter_' := 0x404\<rparr>)))) = 0x800"
    by (simp add: fixture_defs executor_defs)
  have c6: "program_counter_' (raise_exception RAM 4
     (snd (fetch_opcode RAM (user_mode_example\<lparr>program_counter_' := 0x406\<rparr>)))) = 0x500"
    by (simp add: fixture_defs executor_defs)
  have f0: "fst (fetch_opcode RAM user_mode_example) = 0x4E72"
    by (simp add: fixture_defs executor_defs)
  have f2: "fst (fetch_opcode RAM (user_mode_example\<lparr>program_counter_' := 0x402\<rparr>)) = 0xA123"
    by (simp add: fixture_defs executor_defs)
  have f4: "fst (fetch_opcode RAM (user_mode_example\<lparr>program_counter_' := 0x404\<rparr>)) = 0xF001"
    by (simp add: fixture_defs executor_defs)
  have f6: "fst (fetch_opcode RAM (user_mode_example\<lparr>program_counter_' := 0x406\<rparr>)) = 0x4AFC"
    by (simp add: fixture_defs executor_defs)
  have p0: "fetch_opcode RAM user_mode_example =
     (0x4E72, snd (fetch_opcode RAM user_mode_example))"
    using f0 by (simp add: prod_eq_iff)
  have p2: "fetch_opcode RAM (user_mode_example\<lparr>program_counter_' := 0x402\<rparr>) =
     (0xA123, snd (fetch_opcode RAM (user_mode_example\<lparr>program_counter_' := 0x402\<rparr>)))"
    using f2 by (simp add: prod_eq_iff)
  have p4: "fetch_opcode RAM (user_mode_example\<lparr>program_counter_' := 0x404\<rparr>) =
     (0xF001, snd (fetch_opcode RAM (user_mode_example\<lparr>program_counter_' := 0x404\<rparr>)))"
    using f4 by (simp add: prod_eq_iff)
  have p6: "fetch_opcode RAM (user_mode_example\<lparr>program_counter_' := 0x406\<rparr>) =
     (0x4AFC, snd (fetch_opcode RAM (user_mode_example\<lparr>program_counter_' := 0x406\<rparr>)))"
    using f6 by (simp add: prod_eq_iff)
  have u: "is_supervisor_' (status_' user_mode_example) = 0"
    by (simp add: user_mode_example_def zero_status_def)
  have d0: "requires_supervisor (decode example_collaborators 0x4E72)"
    by (simp add: example_collaborators_def example_instruction_def)
  have d2: "operation (decode example_collaborators 0xA123) = Undefined"
    and d4: "operation (decode example_collaborators 0xF001) = Undefined"
    and d6: "operation (decode example_collaborators 0x4AFC) = Undefined"
    and n2: "\<not> requires_supervisor (decode example_collaborators 0xA123)"
    and n4: "\<not> requires_supervisor (decode example_collaborators 0xF001)"
    and n6: "\<not> requires_supervisor (decode example_collaborators 0x4AFC)"
    by (simp_all add: example_collaborators_def example_instruction_def)
  note w0 = exception_vector_selection [OF p0, of example_collaborators blank_ea blank_ea]
  note w2 = exception_vector_selection [OF p2, of example_collaborators blank_ea blank_ea]
  note w4 = exception_vector_selection [OF p4, of example_collaborators blank_ea blank_ea]
  note w6 = exception_vector_selection [OF p6, of example_collaborators blank_ea blank_ea]
  from w0 u d0 have r0:
    "run_instruction RAM example_collaborators blank_ea blank_ea user_mode_example =
       Inr (raise_exception RAM 8 (snd (fetch_opcode RAM user_mode_example)))"
    by simp
  from w2 d2 n2 have r2:
    "run_instruction RAM example_collaborators blank_ea blank_ea
       (user_mode_example\<lparr>program_counter_' := 0x402\<rparr>) =
     Inr (raise_exception RAM 10
            (snd (fetch_opcode RAM (user_mode_example\<lparr>program_counter_' := 0x402\<rparr>))))"
    by simp
  from w4 d4 n4 have r4:
    "run_instruction RAM example_collaborators blank_ea blank_ea
       (user_mode_example\<lparr>program_counter_' := 0x404\<rparr>) =
     Inr (raise_exception RAM 11
            (snd (fetch_opcode RAM (user_mode_example\<lparr>program_counter_' := 0x404\<rparr>))))"
    by simp
  from w6 d6 n6 have r6:
    "run_instruction RAM example_collaborators blank_ea blank_ea
       (user_mode_example\<lparr>program_counter_' := 0x406\<rparr>) =
     Inr (raise_exception RAM 4
            (snd (fetch_opcode RAM (user_mode_example\<lparr>program_counter_' := 0x406\<rparr>))))"
    by simp
  show ?thesis
    by (intro conjI p0 u d0 r0 p2 d2 r2 p4 r4 p6 r6 c0 c2 c4 c6)
qed

subsection \<open>Reset\<close>

text \<open>
  Claim C2. After reset on a memory image holding the long word \<open>0x00123456\<close> at
  address 0 and \<open>0x00789ABC\<close> at address 4, the snapshot should report those values as
  supervisor stack pointer and program counter. The executor stores the long word read
  at address 0 in \<^verbatim>\<open>data_[7]\<close>, not in \<^verbatim>\<open>address_[7]\<close>: on a freshly constructed
  executor over that image the snapshot reports the program counter, but its supervisor
  stack pointer is the content the register had before (zero here) and \<open>0x00123456\<close>
  appears as data register 7.
\<close>

theorem reset_seeds_data_register_7:
  "program_counter (fst (get_state (construct RAM reset_image))) = 0x00789ABC \<and>
   supervisor_stack_pointer (fst (get_state (construct RAM reset_image))) = 0 \<and>
   supervisor_stack_pointer (fst (get_state (construct RAM reset_image))) \<noteq> 0x00123456 \<and>
   data (fst (get_state (construct RAM reset_image))) ! 7 = 0x00123456"
  by (simp add: fixture_defs executor_defs)

text \<open>
  Claim C10. Reset first sets the status word \<open>0b0010001110000000\<close> and applies the
  stack-pointer swap; the claim reads that word as supervisor mode with interrupt mask 7.
  In the status register's layout the mask is bits 8 to 10, which the word sets to 3;
  its bit 7 is no flag of the register, so the status word reads back as \<open>0x2300\<close>.
  The supervisor bit is set, the trace bit and the condition codes are clear, and the
  bookkeeping index is 1.
\<close>

theorem reset_status_word:
  "interrupt_level_' (status_' (reset H s)) = 3 \<and>
   interrupt_level_' (status_' (reset H s)) \<noteq> 7 \<and>
   Status_status (status_' (reset H s)) = 0x2300 \<and>
   is_supervisor_' (status_' (reset H s)) = 1 \<and>
   \<not> trace_flag_' (status_' (reset H s)) \<and>
   Status_status (status_' (reset H s)) AND 0x1F = 0 \<and>
   active_stack_pointer_' (reset H s) = 1"
proof -
  have a: "active_stack_pointer_' (reset H s) = 1"
    by (simp add: reset_bookkeeping status_reset) (simp add: set_status_def)
  show ?thesis
    by (simp add: status_reset a) (simp add: set_status_def Status_status_def)
qed

subsection \<open>Snapshots\<close>

text \<open>
  Claim C3. A snapshot taken with \<open>get_state\<close>, applied with \<open>set_state\<close> and
  taken again is the first snapshot, field for field, in user and in supervisor mode
  alike; in it the stack pointer of the active mode is register A7 and the other one is
  the banked copy.
\<close>

theorem snapshot_round_trip:
  fixes s :: "'b Executor"
  assumes "well_formed s"
  shows "fst (get_state (set_state (fst (get_state s)) (snd (get_state s)))) = fst (get_state s) \<and>
         user_stack_pointer (fst (get_state s)) =
           (if is_supervisor_' (status_' s) = 0 then address_' s ! 7 else stack_pointers_' s ! 0) \<and>
         supervisor_stack_pointer (fst (get_state s)) =
           (if is_supervisor_' (status_' s) = 1 then address_' s ! 7 else stack_pointers_' s ! 1)"
proof -
  from assms obtain d0 d1 d2 d3 d4 d5 d6 d7 where
    d: "data_' s = [d0, d1, d2, d3, d4, d5, d6, d7]"
    by (auto simp add: well_formed_def elim: length_8E)
  from assms obtain a0 a1 a2 a3 a4 a5 a6 a7 where
    a: "address_' s = [a0, a1, a2, a3, a4, a5, a6, a7]"
    by (auto simp add: well_formed_def elim: length_8E)
  from assms obtain u v where sp: "stack_pointers_' s = [u, v]"
    by (auto simp add: well_formed_def elim: length_2E)
  from supervisor_cases [of "is_supervisor_' (status_' s)"] show ?thesis
    by (auto simp add: get_state_def set_state_def Let_def d a sp upt_8 upt_7 set_status_status)
qed

theorem snapshot_round_trip_witness:
  "well_formed user_mode_example \<and>
   fst (get_state (set_state (fst (get_state user_mode_example))
         (snd (get_state user_mode_example)))) = fst (get_state user_mode_example) \<and>
   user_stack_pointer (fst (get_state user_mode_example)) = 0x1000 \<and>
   supervisor_stack_pointer (fst (get_state user_mode_example)) = 0x2000 \<and>
   well_formed (construct RAM reset_image) \<and>
   fst (get_state (set_state (fst (get_state (construct RAM reset_image)))
         (snd (get_state (construct RAM reset_image))))) =
     fst (get_state (construct RAM reset_image))"
proof -
  have w1: "well_formed user_mode_example"
    by (simp add: user_mode_example_def well_formed_def)
  have w2: "well_formed (construct RAM reset_image)"
    by (simp add: fixture_defs executor_defs)
  have b1: "user_stack_pointer (fst (get_state user_mode_example)) = 0x1000"
    and b2: "supervisor_stack_pointer (fst (get_state user_mode_example)) = 0x2000"
    by (simp_all add: fixture_defs executor_defs)
  from snapshot_round_trip [OF w1] snapshot_round_trip [OF w2] w1 w2 b1 b2
  show ?thesis by simp
qed

subsection \<open>Exception delivery\<close>

text \<open>
  Claim C4. Exception delivery should capture the status word, switch to supervisor mode
  with the stack-pointer bank swapped, push the instruction's start address and the
  captured status onto the supervisor stack (A7 ending 6 below the supervisor stack
  pointer) and fetch the program counter from four times the vector. The bus accesses
  and the fetch are as claimed, but the stack is the supervisor stack only while the
  bookkeeping index agrees with the supervisor bit, and \<open>set_state\<close> leaves the index
  stale: after construction and a user-mode snapshot with user stack pointer \<open>0x1000\<close>
  and supervisor stack pointer \<open>0x2000\<close>, an exception writes its frame at \<open>0xFFC\<close>
  and \<open>0xFFA\<close>, below the user stack pointer, leaves A7 at \<open>0xFFA\<close> instead of
  \<open>0x1FFA\<close>, and overwrites the banked supervisor stack pointer.
\<close>

theorem exception_frame_on_user_stack:
  "(let s1 = set_state user_snapshot (construct RAM reset_image);
        s2 = raise_exception RAM 8 s1
    in is_supervisor_' (status_' s1) = 0 \<and> address_' s1 ! 7 = 0x1000 \<and>
       supervisor_stack s1 = 0x2000 \<and>
       bus_log s2 = bus_log s1 @
         [BusWrite LongWord 0xFFC (instruction_address_' s1),
          BusWrite Word 0xFFA (ucast (Status_status (status_' s1))),
          BusRead LongWord 0x20] \<and>
       is_supervisor_' (status_' s2) = 1 \<and>
       address_' s2 ! 7 = 0xFFA \<and>
       address_' s2 ! 7 \<noteq> supervisor_stack s1 - 6 \<and>
       stack_pointers_' s2 ! 1 = 0x1000 \<and>
       supervisor_stack s2 \<noteq> supervisor_stack s1 - 6)"
  by (simp add: user_snapshot_def supervisor_stack_def fixture_defs executor_defs)

subsection \<open>The stack-pointer bookkeeping\<close>

text \<open>
  Claim C5. The bookkeeping index should equal the supervisor bit after every
  operation, A7 holding the stack pointer of the current mode. \<open>did_update_status\<close>,
  \<open>reset\<close> and \<open>raise_exception\<close> leave it so, but \<open>set_state\<close> replaces the
  status word and A7 and leaves the index as it was: after construction (supervisor
  mode, index 1) a user-mode snapshot gives supervisor bit 0 with index 1. The next
  exception then saves the user stack pointer \<open>0x1000\<close> into the supervisor slot,
  losing \<open>0x2000\<close>, and pushes its frame below the user stack pointer.
\<close>

theorem set_state_leaves_bookkeeping_stale:
  "(let s0 = construct RAM reset_image;
        s1 = set_state user_snapshot s0;
        s2 = raise_exception RAM 8 s1
    in active_stack_pointer_' s0 = 1 \<and> is_supervisor_' (status_' s0) = 1 \<and>
       active_stack_pointer_' s1 = 1 \<and> is_supervisor_' (status_' s1) = 0 \<and>
       address_' s1 ! 7 = 0x1000 \<and> stack_pointers_' s1 = [0x1000, 0x2000] \<and>
       address_' s2 ! 7 = 0xFFA \<and> stack_pointers_' s2 = [0x1000, 0x1000] \<and>
       bus_log s2 = bus_log s1 @
         [BusWrite LongWord 0xFFC 0, BusWrite Word 0xFFA 0, BusRead LongWord 0x20])"
  by (simp add: user_snapshot_def fixture_defs executor_defs)

subsection \<open>Operands in registers\<close>

text \<open>
  Claim C7. For an operand whose addressing mode is data-register-direct or
  address-register-direct, the effective-address calculation touches neither the bus
  handler nor the log and marks the operand as needing no fetch, and the fetch or store
  step of that operand returns with the bus handler and the log as they were. In general
  a fetch or store step that returns has added to the log exactly when the operand's
  \<open>requires_fetch\<close> is set.
\<close>

theorem register_direct_operands_use_no_bus:
  fixes s :: "'b Executor"
  assumes step: "step = FetchOp1 \<or> step = FetchOp2 \<or> step = StoreOp1 \<or> step = StoreOp2"
  shows
    "((mode instruction (step_index step) = DataRegisterDirect \<or>
       mode instruction (step_index step) = AddressRegisterDirect) \<and>
      calculate_effective_address H q instruction opcode (step_index step) ea s0 = Inr (e, s1) \<and>
      effective_address ! step_index step = e \<longrightarrow>
        \<not> requires_fetch e \<and> bus_log s1 = bus_log s0 \<and> bus_handler_' s1 = bus_handler_' s0 \<and>
        (\<exists>operand' s'.
           perform_step H C instruction effective_address step (operand, s) = Inr (operand', s') \<and>
           bus_log s' = bus_log s \<and> bus_handler_' s' = bus_handler_' s)) \<and>
     (\<forall>operand' s'.
        perform_step H C instruction effective_address step (operand, s) = Inr (operand', s') \<longrightarrow>
        (bus_log s' \<noteq> bus_log s \<longleftrightarrow> requires_fetch (effective_address ! step_index step)))"
proof -
  have p1: "\<not> requires_fetch e \<and> bus_log s1 = bus_log s0 \<and> bus_handler_' s1 = bus_handler_' s0 \<and>
        (\<exists>operand' s'.
           perform_step H C instruction effective_address step (operand, s) = Inr (operand', s') \<and>
           bus_log s' = bus_log s \<and> bus_handler_' s' = bus_handler_' s)"
    if m: "mode instruction (step_index step) = DataRegisterDirect \<or>
           mode instruction (step_index step) = AddressRegisterDirect"
      and c: "calculate_effective_address H q instruction opcode (step_index step) ea s0 =
              Inr (e, s1)"
      and e: "effective_address ! step_index step = e"
  proof -
    from m c have r: "\<not> requires_fetch e" and s10: "s1 = s0"
      by (auto simp add: calculate_effective_address_def)
    from step m r e show ?thesis
      unfolding s10 by (auto simp add: perform_step_def Let_def)
  qed
  have p2: "bus_log s' \<noteq> bus_log s \<longleftrightarrow> requires_fetch (effective_address ! step_index step)"
    if p: "perform_step H C instruction effective_address step (operand, s) = Inr (operand', s')"
    for operand' s'
  proof (cases "requires_fetch (effective_address ! step_index step)")
    case True
    note rd = bus_log_Executor_read [of H "size_' instruction"
        "ea_value (effective_address ! step_index step)" "operand ! step_index step" s]
    note wr = bus_log_Executor_write [of H "size_' instruction"
        "ea_value (effective_address ! step_index step)" "operand ! step_index step" s]
    from step show ?thesis
    proof (elim disjE)
      assume "step = FetchOp1"
      with p True rd show ?thesis
        by (auto simp add: perform_step_def Let_def split_beta)
    next
      assume "step = FetchOp2"
      with p True rd show ?thesis
        by (auto simp add: perform_step_def Let_def split_beta)
    next
      assume "step = StoreOp1"
      with p True wr show ?thesis
        by (auto simp add: perform_step_def Let_def split_beta)
    next
      assume "step = StoreOp2"
      with p True wr show ?thesis
        by (auto simp add: perform_step_def Let_def split_beta)
    qed
  next
    case False
    with step p show ?thesis
      by (auto simp add: perform_step_def Let_def split: if_splits)
  qed
  show ?thesis
    using p1 p2 by blast
qed

theorem register_direct_operands_use_no_bus_witness:
  "(let instruction = example_instruction DataRegisterDirect 3 AddressRegisterIndirect 2 Word;
        e0 = \<lparr>ea_value = 3, requires_fetch = False\<rparr>;
        e1 = \<lparr>ea_value = 0x10200, requires_fetch = True\<rparr>;
        s = user_mode_example
    in step_index StoreOp1 = 0 \<and> mode instruction 0 = DataRegisterDirect \<and>
       calculate_effective_address RAM (quick example_collaborators) instruction 0 0 blank_ea s =
         Inr (e0, s) \<and>
       perform_step RAM example_collaborators instruction [e0, e1] StoreOp1 ([9, 0], s) =
         Inr ([9, 0], s\<lparr>data_' := [0, 1, 2, 9, 4, 5, 6, 7]\<rparr>) \<and>
       bus_log (s\<lparr>data_' := [0, 1, 2, 9, 4, 5, 6, 7]\<rparr>) = bus_log s \<and>
       step_index FetchOp2 = 1 \<and> requires_fetch ([e0, e1] ! 1) \<and>
       perform_step RAM example_collaborators instruction [e0, e1] FetchOp2 ([9, 0], s) =
         Inr ([9, 0], s\<lparr>bus_log := [BusRead Word 0x10200]\<rparr>) \<and>
       bus_log (s\<lparr>bus_log := [BusRead Word 0x10200]\<rparr>) \<noteq> bus_log s)"
proof -
  define instruction where
    "instruction = example_instruction DataRegisterDirect 3 AddressRegisterIndirect 2 Word"
  define e0 where "e0 = \<lparr>ea_value = 3 :: u32, requires_fetch = False\<rparr>"
  define e1 where "e1 = \<lparr>ea_value = 0x10200 :: u32, requires_fetch = True\<rparr>"
  have i: "step_index StoreOp1 = 0" "step_index FetchOp2 = 1"
    "mode instruction 0 = DataRegisterDirect" "requires_fetch ([e0, e1] ! 1)"
    by (simp_all add: step_index_def instruction_def example_instruction_def mode_def e1_def)
  have c: "calculate_effective_address RAM (quick example_collaborators) instruction 0 0 blank_ea
             user_mode_example = Inr (e0, user_mode_example)"
    by (simp add: calculate_effective_address_def instruction_def example_instruction_def
        mode_def reg_def e0_def user_mode_example_def)
  have st: "perform_step RAM example_collaborators instruction [e0, e1] StoreOp1
              ([9, 0], user_mode_example) =
            Inr ([9, 0], user_mode_example\<lparr>data_' := [0, 1, 2, 9, 4, 5, 6, 7]\<rparr>)"
    by (simp add: perform_step_def step_index_def instruction_def example_instruction_def
        mode_def reg_def e0_def user_mode_example_def)
  have ft: "perform_step RAM example_collaborators instruction [e0, e1] FetchOp2
              ([9, 0], user_mode_example) =
            Inr ([9, 0], user_mode_example\<lparr>bus_log := [BusRead Word 0x10200]\<rparr>)"
    by (simp add: perform_step_def step_index_def instruction_def example_instruction_def
        e1_def user_mode_example_def Executor_read_def bus_read_u16_def RAM_def
        example_image_def)
  have l: "bus_log (user_mode_example\<lparr>data_' := [0, 1, 2, 9, 4, 5, 6, 7]\<rparr>) =
           bus_log user_mode_example"
    by simp
  have step1: "StoreOp1 = FetchOp1 \<or> StoreOp1 = FetchOp2 \<or> StoreOp1 = StoreOp1 \<or>
               StoreOp1 = StoreOp2"
    and step2: "FetchOp2 = FetchOp1 \<or> FetchOp2 = FetchOp2 \<or> FetchOp2 = StoreOp1 \<or>
               FetchOp2 = StoreOp2"
    by simp_all
  note t1 = register_direct_operands_use_no_bus [OF step1, of instruction RAM
      "quick example_collaborators" 0 blank_ea user_mode_example e0 user_mode_example
      "[e0, e1]" example_collaborators "[9, 0]" user_mode_example]
  note t2 = register_direct_operands_use_no_bus [OF step2, of instruction RAM
      "quick example_collaborators" 0 blank_ea user_mode_example e0 user_mode_example
      "[e0, e1]" example_collaborators "[9, 0]" user_mode_example]
  from t2 ft i have n: "bus_log (user_mode_example\<lparr>bus_log := [BusRead Word 0x10200]\<rparr>) \<noteq>
                    bus_log user_mode_example"
    by simp
  from t1 i c st l ft n show ?thesis
    unfolding instruction_def e0_def e1_def Let_def by simp
qed

subsection \<open>Postincrement and predecrement\<close>

text \<open>
  Claim C9. In the postincrement and predecrement modes the address register is moved by
  the operand size: 2 for a word, 4 for a long word, and for a byte 1 on registers A0 to
  A6 but 2 on A7. Postincrement yields the address before the move, predecrement the
  address after it; both mark the operand as needing a fetch.
\<close>

theorem postincrement_predecrement_adjustment:
  fixes s :: "'b Executor"
  assumes wf: "well_formed s" and r: "reg instruction index < 8"
  shows
    "let r = reg instruction index;
         step = (case size_' instruction of
                   Byte \<Rightarrow> if r = 7 then 2 else 1 | Word \<Rightarrow> 2 | LongWord \<Rightarrow> 4)
     in (mode instruction index = AddressRegisterIndirectWithPostincrement \<longrightarrow>
           calculate_effective_address H q instruction opcode index ea s =
             Inr (\<lparr>ea_value = address_' s ! r, requires_fetch = True\<rparr>,
                  s\<lparr>address_' := (address_' s)[r := address_' s ! r + step]\<rparr>)) \<and>
        (mode instruction index = AddressRegisterIndirectWithPredecrement \<longrightarrow>
           calculate_effective_address H q instruction opcode index ea s =
             Inr (\<lparr>ea_value = address_' s ! r - step, requires_fetch = True\<rparr>,
                  s\<lparr>address_' := (address_' s)[r := address_' s ! r - step]\<rparr>))"
proof -
  have len: "length (address_' s) = 8" using wf by (simp add: well_formed_def)
  have inc: "byte_increments ! reg instruction index =
             (if reg instruction index = 7 then 2 else 1)"
    using r by (auto simp add: byte_increments_def nth_Cons' less_Suc_eq numeral_eq_Suc)
  show ?thesis
    using r len by (cases "size_' instruction")
      (simp_all add: calculate_effective_address_def Let_def inc)
qed

theorem postincrement_predecrement_adjustment_witness:
  "well_formed user_mode_example \<and>
   calculate_effective_address RAM (quick example_collaborators)
       (example_instruction AddressRegisterIndirectWithPostincrement 7 None_' 0 Byte)
       0 0 blank_ea user_mode_example =
     Inr (\<lparr>ea_value = 0x1000, requires_fetch = True\<rparr>,
          user_mode_example\<lparr>address_' :=
            [0x10000, 0x10100, 0x10200, 0x10300, 0x10400, 0x10500, 0x10600, 0x1002]\<rparr>) \<and>
   calculate_effective_address RAM (quick example_collaborators)
       (example_instruction AddressRegisterIndirectWithPostincrement 3 None_' 0 Byte)
       0 0 blank_ea user_mode_example =
     Inr (\<lparr>ea_value = 0x10300, requires_fetch = True\<rparr>,
          user_mode_example\<lparr>address_' :=
            [0x10000, 0x10100, 0x10200, 0x10301, 0x10400, 0x10500, 0x10600, 0x1000]\<rparr>) \<and>
   calculate_effective_address RAM (quick example_collaborators)
       (example_instruction None_' 0 AddressRegisterIndirectWithPredecrement 7 Byte)
       0 1 blank_ea user_mode_example =
     Inr (\<lparr>ea_value = 0xFFE, requires_fetch = True\<rparr>,
          user_mode_example\<lparr>address_' :=
            [0x10000, 0x10100, 0x10200, 0x10300, 0x10400, 0x10500, 0x10600, 0xFFE]\<rparr>) \<and>
   calculate_effective_address RAM (quick example_collaborators)
       (example_instruction None_' 0 AddressRegisterIndirectWithPredecrement 2 LongWord)
       0 1 blank_ea user_mode_example =
     Inr (\<lparr>ea_value = 0x101FC, requires_fetch = True\<rparr>,
          user_mode_example\<lparr>address_' :=
            [0x10000, 0x10100, 0x101FC, 0x10300, 0x10400, 0x10500, 0x10600, 0x1000]\<rparr>)"
proof -
  have w: "well_formed user_mode_example"
    by (simp add: user_mode_example_def well_formed_def)
  have a: "address_' user_mode_example =
     [0x10000, 0x10100, 0x10200, 0x10300, 0x10400, 0x10500, 0x10600, 0x1000]"
    by (simp add: user_mode_example_def)
  note t = postincrement_predecrement_adjustment [OF w, where H = RAM
      and q = "quick example_collaborators" and opcode = 0 and ea = blank_ea]
  have r1: "reg (example_instruction AddressRegisterIndirectWithPostincrement 7 None_' 0 Byte) 0 < 8"
    and r2: "reg (example_instruction AddressRegisterIndirectWithPostincrement 3 None_' 0 Byte) 0 < 8"
    and r3: "reg (example_instruction None_' 0 AddressRegisterIndirectWithPredecrement 7 Byte) 1 < 8"
    and r4: "reg (example_instruction None_' 0 AddressRegisterIndirectWithPredecrement 2 LongWord) 1 < 8"
    by (simp_all add: reg_def example_instruction_def)
  from t [OF r1] t [OF r2] t [OF r3] t [OF r4] w show ?thesis
    by (simp add: Let_def reg_def mode_def example_instruction_def a)
qed

end
